theory Spec2Isabelle
  imports Main "HOL-Library.Word"
begin

section \<open>Configuration resolution of commitizen (\<^verbatim>\<open>commitizen/config/__init__.py\<close>)\<close>

text \<open>
  The module has three functions: \<^verbatim>\<open>read_cfg\<close>, \<^verbatim>\<open>_find_config_from_defaults\<close> and
  \<^verbatim>\<open>_load_config_from_file\<close>. They are embedded below as functions over an explicit
  file system state. What the module imports and does not define itself (the git
  collaborator, the table of default file names, the default settings and the three
  format classes) is collected in the record \<open>env\<close>, so that every theorem holds for
  whatever these are.
\<close>

subsection \<open>Paths (\<^verbatim>\<open>pathlib\<close>, POSIX flavour)\<close>

text \<open>
  A path is its anchor (rooted at \<^verbatim>\<open>/\<close> or not) and its components.
  \<^verbatim>\<open>Path(".")\<close> has no component.
\<close>

datatype path = PosixPath (anchored: bool) (names: "string list")

fun split_sep :: "string \<Rightarrow> string list" where
  "split_sep [] = [[]]"
| "split_sep (c # cs) =
     (if c = CHR ''/'' then [] # split_sep cs
      else (case split_sep cs of [] \<Rightarrow> [[c]] | x # xs \<Rightarrow> (c # x) # xs))"

text \<open>\<^verbatim>\<open>Path(s)\<close>: empty components and \<^verbatim>\<open>.\<close> components are dropped.\<close>

definition Path :: "string \<Rightarrow> path" where
  "Path s = PosixPath (s \<noteq> [] \<and> hd s = CHR ''/'')
                      (filter (\<lambda>x. x \<noteq> [] \<and> x \<noteq> ''.'') (split_sep s))"

text \<open>\<^verbatim>\<open>p / q\<close>: an anchored right operand replaces the left one.\<close>

definition joinpath :: "path \<Rightarrow> path \<Rightarrow> path" where
  "joinpath p q = (if anchored q then q else PosixPath (anchored p) (names p @ names q))"

fun join_sep :: "string list \<Rightarrow> string" where
  "join_sep [] = []"
| "join_sep [x] = x"
| "join_sep (x # y # ys) = x @ ''/'' @ join_sep (y # ys)"

text \<open>\<^verbatim>\<open>str(p)\<close>, as the f-strings of the error messages render a path.\<close>

definition str :: "path \<Rightarrow> string" where
  "str p = (if anchored p then ''/'' @ join_sep (names p)
            else if names p = [] then ''.'' else join_sep (names p))"

text \<open>\<^verbatim>\<open>p.name\<close>: the final component, the empty string when there is none.\<close>

definition name :: "path \<Rightarrow> string" where
  "name p = (case names p of [] \<Rightarrow> [] | _ \<Rightarrow> last (names p))"

text \<open>\<^verbatim>\<open>s.rfind(c)\<close>: the highest index of \<open>c\<close>, \<open>None\<close> for Python's \<open>-1\<close>.\<close>

definition rfind :: "string \<Rightarrow> char \<Rightarrow> nat option" where
  "rfind s c = (if c \<in> set s
                then Some (length s - 1 - length (takeWhile (\<lambda>x. x \<noteq> c) (rev s)))
                else None)"

text \<open>
  \<^verbatim>\<open>p.suffix\<close>, the last extension of the final component, as \<^verbatim>\<open>pathlib\<close> computes it
  up to Python 3.13:
  \<^verbatim>\<open>i = name.rfind('.'); return name[i:] if 0 < i < len(name) - 1 else ''\<close>.
\<close>

definition suffix :: "path \<Rightarrow> string" where
  "suffix p = (let n = name p in
     case rfind n CHR ''.'' of
       None \<Rightarrow> []
     | Some i \<Rightarrow> if 0 < i \<and> i + 1 < length n then drop i n else [])"

text \<open>Python's \<^verbatim>\<open>sub in s\<close> on strings.\<close>

fun startswith :: "string \<Rightarrow> string \<Rightarrow> bool" where
  "startswith s [] = True"
| "startswith [] (c # cs) = False"
| "startswith (x # xs) (c # cs) = (x = c \<and> startswith xs cs)"

fun str_in :: "string \<Rightarrow> string \<Rightarrow> bool" where
  "str_in sub [] = (sub = [])"
| "str_in sub (x # xs) = (startswith (x # xs) sub \<or> str_in sub xs)"

subsection \<open>The file system\<close>

type_synonym bytes = "8 word list"

datatype node = File bytes | Dir

text \<open>
  The working directory of the process and what is stored under each absolute
  component list. A relative path is resolved against the working directory.
\<close>

record world =
  cwd :: "string list"
  files :: "string list \<rightharpoonup> node"

definition resolve :: "world \<Rightarrow> path \<Rightarrow> string list" where
  "resolve w p = (if anchored p then names p else cwd w @ names p)"

datatype error =
    InvalidConfigurationError string
  | FileNotFoundError string
  | IsADirectoryError string

text \<open>\<^verbatim>\<open>p.exists()\<close>: true of files and of directories.\<close>

definition exists :: "path \<Rightarrow> world \<Rightarrow> bool \<times> world" where
  "exists p w = (files w (resolve w p) \<noteq> None, w)"

text \<open>
  The builtin \<^verbatim>\<open>open(p, mode)\<close> for the two binary modes. Opening for reading fails
  on a missing path and on a directory and leaves the file system as it is; opening
  for writing creates the file or truncates it.
\<close>

datatype open_mode = Mode_rb | Mode_wb

type_synonym file_handle = "string list"

definition open_file :: "path \<Rightarrow> open_mode \<Rightarrow> world \<Rightarrow> (error + file_handle) \<times> world" where
  "open_file p mode w = (let k = resolve w p in
     case mode of
       Mode_rb \<Rightarrow>
         (case files w k of
            None \<Rightarrow> (Inl (FileNotFoundError (str p)), w)
          | Some Dir \<Rightarrow> (Inl (IsADirectoryError (str p)), w)
          | Some (File d) \<Rightarrow> (Inr k, w))
     | Mode_wb \<Rightarrow>
         (case files w k of
            Some Dir \<Rightarrow> (Inl (IsADirectoryError (str p)), w)
          | _ \<Rightarrow> (Inr k, w\<lparr>files := (files w)(k \<mapsto> File [])\<rparr>)))"

text \<open>\<^verbatim>\<open>f.read()\<close> on a handle just opened: the whole content.\<close>

definition file_read :: "file_handle \<Rightarrow> world \<Rightarrow> bytes \<times> world" where
  "file_read f w = (case files w f of Some (File d) \<Rightarrow> (d, w) | _ \<Rightarrow> ([], w))"

subsection \<open>Configuration objects and the module's imports\<close>

datatype setting =
    VNone
  | VBool bool
  | VInt int
  | VStr string
  | VList "setting list"
  | VDict "(string \<times> setting) list"

type_synonym settings = "(string \<times> setting) list"

datatype config_class = Base_class | Toml_class | Json_class | YAML_class

record config =
  cls :: config_class
  settings :: settings
  path :: "path option"
  is_empty_config :: bool

text \<open>
  What the module imports: \<^verbatim>\<open>git.find_git_project_root()\<close> (its result),
  \<^verbatim>\<open>defaults.config_files\<close>, \<^verbatim>\<open>defaults.DEFAULT_SETTINGS\<close>, and the constructors
  \<^verbatim>\<open>TomlConfig(data=, path=)\<close>, \<^verbatim>\<open>JsonConfig(data=, path=)\<close> and
  \<^verbatim>\<open>YAMLConfig(data=, path=)\<close>, which either raise or build a configuration object.
\<close>

record env =
  find_git_project_root :: "path option"
  config_files :: "string list"
  DEFAULT_SETTINGS :: settings
  TomlConfig :: "bytes \<Rightarrow> path \<Rightarrow> error + config"
  JsonConfig :: "bytes \<Rightarrow> path \<Rightarrow> error + config"
  YAMLConfig :: "bytes \<Rightarrow> path \<Rightarrow> error + config"

text \<open>
  Modelled from the spec: the constructor \<^verbatim>\<open>BaseConfig()\<close> of
  \<^verbatim>\<open>commitizen/config/base_config.py\<close>, which is not among the sources. The spec has the
  handle "created empty with defaults" and its originating path "absent when using
  built-in defaults only".
\<close>

definition BaseConfig :: "env \<Rightarrow> config" where
  "BaseConfig e = \<lparr>cls = Base_class, settings = DEFAULT_SETTINGS e, path = None,
                   is_empty_config = False\<rparr>"

subsection \<open>\<^verbatim>\<open>_load_config_from_file\<close>\<close>

definition load_config_from_file :: "env \<Rightarrow> path \<Rightarrow> world \<Rightarrow> (error + config) \<times> world" where
  "load_config_from_file e p w =
     (case open_file p Mode_rb w of
        (Inl err, w1) \<Rightarrow> (Inl err, w1)
      | (Inr f, w1) \<Rightarrow>
          (case file_read f w1 of (data, w2) \<Rightarrow>
             if str_in ''toml'' (suffix p) then (TomlConfig e data p, w2)
             else if str_in ''json'' (suffix p) then (JsonConfig e data p, w2)
             else if str_in ''yaml'' (suffix p) then (YAMLConfig e data p, w2)
             else (Inl (InvalidConfigurationError
                     ''Config file should have a valid extension: toml, yaml or json''), w2)))"

subsection \<open>\<^verbatim>\<open>_find_config_from_defaults\<close>\<close>

text \<open>Lines 69 to 72: the directories searched.\<close>

definition cfg_search_paths :: "env \<Rightarrow> path list" where
  "cfg_search_paths e =
     (let ps = [Path ''.''] in
      case find_git_project_root e of None \<Rightarrow> ps | Some git_project_root \<Rightarrow> ps @ [git_project_root])"

text \<open>Lines 73 to 77: the generator of candidate paths.\<close>

definition cfg_paths :: "env \<Rightarrow> path list" where
  "cfg_paths e =
     concat (map (\<lambda>p. map (\<lambda>filename. joinpath p (Path filename)) (config_files e))
                 (cfg_search_paths e))"

text \<open>Lines 78 to 84: the loop over the candidates.\<close>

fun find_loop :: "env \<Rightarrow> path list \<Rightarrow> world \<Rightarrow> (error + config option) \<times> world" where
  "find_loop e [] w = (Inr None, w)"
| "find_loop e (filename # rest) w =
     (case exists filename w of (ex, w1) \<Rightarrow>
        if \<not> ex then find_loop e rest w1
        else (case load_config_from_file e filename w1 of
                (Inl err, w2) \<Rightarrow> (Inl err, w2)
              | (Inr conf, w2) \<Rightarrow>
                  if \<not> is_empty_config conf then (Inr (Some conf), w2)
                  else find_loop e rest w2))"

definition find_config_from_defaults :: "env \<Rightarrow> world \<Rightarrow> (error + config option) \<times> world" where
  "find_config_from_defaults e w = find_loop e (cfg_paths e) w"

subsection \<open>\<^verbatim>\<open>read_cfg\<close>\<close>

text \<open>
  A \<^verbatim>\<open>Path\<close> object is always true in a condition, so \<^verbatim>\<open>if cfg_path:\<close> separates
  \<^verbatim>\<open>None\<close> from a path. \<^verbatim>\<open>if _conf:\<close> separates \<^verbatim>\<open>None\<close> from a configuration
  object in the same way (the configuration classes are taken to define neither
  \<^verbatim>\<open>__bool__\<close> nor \<^verbatim>\<open>__len__\<close>).
\<close>

definition read_cfg :: "env \<Rightarrow> path option \<Rightarrow> world \<Rightarrow> (error + config) \<times> world" where
  "read_cfg e cfg_path w =
     (let conf = BaseConfig e in
      case cfg_path of
        Some p \<Rightarrow>
          (case exists p w of (ex, w1) \<Rightarrow>
             if \<not> ex then
               (Inl (InvalidConfigurationError (''File '' @ str p @ '' not exists.'')), w1)
             else
               (case load_config_from_file e p w1 of
                  (Inl err, w2) \<Rightarrow> (Inl err, w2)
                | (Inr c, w2) \<Rightarrow>
                    if is_empty_config c then
                      (Inl (InvalidConfigurationError
                         (''File '' @ str p @ '' doesn't contain any configuration. ''
                          @ ''Fill it or don't use --config-file option.'')), w2)
                    else (Inr c, w2)))
      | None \<Rightarrow>
          (case find_config_from_defaults e w of
             (Inl err, w1) \<Rightarrow> (Inl err, w1)
           | (Inr None, w1) \<Rightarrow> (Inr conf, w1)
           | (Inr (Some c), w1) \<Rightarrow> (Inr c, w1)))"

subsection \<open>Candidates the search passes over\<close>

text \<open>
  The two tests of the loop body that lead to the next iteration: the candidate does
  not exist, or it loads without an error into an object whose \<^verbatim>\<open>is_empty_config\<close> is set.
\<close>

definition skipped :: "env \<Rightarrow> world \<Rightarrow> path \<Rightarrow> bool" where
  "skipped e w p =
     (if fst (exists p w)
      then (case fst (load_config_from_file e p w) of
              Inl err \<Rightarrow> False
            | Inr conf \<Rightarrow> is_empty_config conf)
      else True)"

subsection \<open>Sample inputs\<close>

text \<open>
  Concrete inputs at which the functions are evaluated. The stand-in for the three format
  classes reads empty content as a document without the tool's section, content that
  begins with the byte \<^verbatim>\<open>!\<close> as malformed, and any other content as a document whose
  section sets the name \<^verbatim>\<open>cz_jira\<close>.
\<close>

definition sample_defaults :: settings where
  "sample_defaults =
     [(''name'', VStr ''cz_conventional_commits''), (''version'', VNone),
      (''tag_format'', VStr ''$version''), (''encoding'', VStr ''utf-8'')]"

definition sample_class :: "config_class \<Rightarrow> bytes \<Rightarrow> path \<Rightarrow> error + config" where
  "sample_class c data p =
     (if data = [] then
        Inr \<lparr>cls = c, settings = sample_defaults, path = Some p, is_empty_config = True\<rparr>
      else if hd data = 0x21 then
        Inl (InvalidConfigurationError (''Failed to parse '' @ str p))
      else
        Inr \<lparr>cls = c,
             settings = [(''name'', VStr ''cz_jira''), (''version'', VStr ''1.0.0''),
                         (''tag_format'', VStr ''$version''), (''encoding'', VStr ''utf-8'')],
             path = Some p, is_empty_config = False\<rparr>)"

definition sample_files :: "string list" where
  "sample_files = [''pyproject.toml'', ''.cz.toml'', ''.cz.json'', ''.cz.yaml'']"

text \<open>Outside a git working tree, and inside one whose root is the working directory.\<close>

definition env_no_git :: env where
  "env_no_git = \<lparr>find_git_project_root = None, config_files = sample_files,
                  DEFAULT_SETTINGS = sample_defaults, TomlConfig = sample_class Toml_class,
                  JsonConfig = sample_class Json_class, YAMLConfig = sample_class YAML_class\<rparr>"

definition env_git_root :: env where
  "env_git_root = env_no_git\<lparr>find_git_project_root := Some (PosixPath True [''repo''])\<rparr>"

text \<open>
  A working directory \<^verbatim>\<open>/repo\<close> with an empty \<^verbatim>\<open>pyproject.toml\<close>, a populated
  \<^verbatim>\<open>.cz.toml\<close> and some files given by an explicit path.
\<close>

definition world_repo :: world where
  "world_repo = \<lparr>cwd = [''repo''],
     files = [[''repo''] \<mapsto> Dir,
              [''repo'', ''pyproject.toml''] \<mapsto> File [],
              [''repo'', ''.cz.toml''] \<mapsto> File [0x5B, 0x74],
              [''repo'', ''file.toml''] \<mapsto> File [],
              [''repo'', ''file.txt''] \<mapsto> File [],
              [''repo'', ''config.json.bak''] \<mapsto> File [0x7B, 0x7D],
              [''repo'', ''jsonfile.txt''] \<mapsto> File [0x7B, 0x7D],
              [''repo'', ''config.json5''] \<mapsto> File [0x7B, 0x7D]]\<rparr>"

text \<open>A working directory \<^verbatim>\<open>/tmp\<close> that holds an empty \<^verbatim>\<open>.cz.json\<close> only.\<close>

definition world_tmp :: world where
  "world_tmp = \<lparr>cwd = [''tmp''],
     files = [[''tmp''] \<mapsto> Dir, [''tmp'', ''.cz.json''] \<mapsto> File []]\<rparr>"

text \<open>A working directory whose \<^verbatim>\<open>pyproject.toml\<close> is malformed, before a good \<^verbatim>\<open>.cz.toml\<close>.\<close>

definition world_broken :: world where
  "world_broken = \<lparr>cwd = [''repo''],
     files = [[''repo''] \<mapsto> Dir,
              [''repo'', ''pyproject.toml''] \<mapsto> File [0x21],
              [''repo'', ''.cz.toml''] \<mapsto> File [0x5B, 0x74]]\<rparr>"

text \<open>
  A working directory \<^verbatim>\<open>/repo/src\<close> below the git root \<^verbatim>\<open>/repo\<close>; the configuration
  files are in the root.
\<close>

definition world_sub :: world where
  "world_sub = \<lparr>cwd = [''repo'', ''src''],
     files = [[''repo''] \<mapsto> Dir, [''repo'', ''src''] \<mapsto> Dir,
              [''repo'', ''pyproject.toml''] \<mapsto> File [],
              [''repo'', ''.cz.toml''] \<mapsto> File [0x5B, 0x74]]\<rparr>"

text \<open>
  A working directory \<^verbatim>\<open>/repo\<close> with one file for each format, two files whose suffix
  only contains the name of a format, and two files of no format.
\<close>

definition world_ext :: world where
  "world_ext = \<lparr>cwd = [''repo''],
     files = [[''repo''] \<mapsto> Dir,
              [''repo'', ''.cz.toml''] \<mapsto> File [0x5B, 0x74],
              [''repo'', ''.cz.json''] \<mapsto> File [0x7B, 0x7D],
              [''repo'', ''.cz.yaml''] \<mapsto> File [0x63, 0x3A],
              [''repo'', ''cz.tomlrc''] \<mapsto> File [0x5B, 0x74],
              [''repo'', ''cz.jsontoml''] \<mapsto> File [0x7B, 0x7D],
              [''repo'', ''file.txt''] \<mapsto> File [],
              [''repo'', ''Makefile''] \<mapsto> File [0x61]]\<rparr>"

definition conf_cz_toml :: "path \<Rightarrow> config" where
  "conf_cz_toml p =
     \<lparr>cls = Toml_class,
      settings = [(''name'', VStr ''cz_jira''), (''version'', VStr ''1.0.0''),
                  (''tag_format'', VStr ''$version''), (''encoding'', VStr ''utf-8'')],
      path = Some p, is_empty_config = False\<rparr>"

section \<open>Properties\<close>

subsection \<open>Substring test\<close>

lemma startswith_iff: "startswith s sub \<longleftrightarrow> (\<exists>b. s = sub @ b)"
  by (induction s sub rule: startswith.induct) auto

lemma str_in_iff: "str_in sub s \<longleftrightarrow> (\<exists>a b. s = a @ sub @ b)"
proof (induction s)
  case Nil
  then show ?case by auto
next
  case (Cons x xs)
  show ?case
  proof
    assume "str_in sub (x # xs)"
    then consider "startswith (x # xs) sub" | "str_in sub xs" by auto
    then show "\<exists>a b. x # xs = a @ sub @ b"
    proof cases
      case 1
      then obtain b where "x # xs = sub @ b" using startswith_iff by blast
      then have "x # xs = [] @ sub @ b" by simp
      then show ?thesis by blast
    next
      case 2
      then obtain a b where "xs = a @ sub @ b" using Cons.IH by blast
      then have "x # xs = (x # a) @ sub @ b" by simp
      then show ?thesis by blast
    qed
  next
    assume "\<exists>a b. x # xs = a @ sub @ b"
    then obtain a b where ab: "x # xs = a @ sub @ b" by blast
    show "str_in sub (x # xs)"
    proof (cases a)
      case Nil
      with ab have "startswith (x # xs) sub" using startswith_iff by auto
      then show ?thesis by simp
    next
      case (Cons y ys)
      with ab have "xs = ys @ sub @ b" by simp
      then have "str_in sub xs" using Cons.IH by blast
      then show ?thesis by simp
    qed
  qed
qed

subsection \<open>The suffix of a path\<close>

text \<open>
  The suffix of \<^verbatim>\<open>stem.ext\<close> is \<^verbatim>\<open>.ext\<close> when \<^verbatim>\<open>ext\<close> has no dot and neither part is
  empty; a name without a dot has the empty suffix. The leading dot of a suffix plays no
  part in the search for a substring that does not begin with a dot.
\<close>

lemma takeWhile_until:
  "c \<notin> set xs \<Longrightarrow> takeWhile (\<lambda>x. x \<noteq> c) (xs @ c # ys) = xs"
  by (induction xs) auto

lemma rfind_last_dot:
  assumes "CHR ''.'' \<notin> set ext"
  shows "rfind (stem @ ''.'' @ ext) CHR ''.'' = Some (length stem)"
proof -
  have "CHR ''.'' \<notin> set (rev ext)" using assms by simp
  then have "takeWhile (\<lambda>x. x \<noteq> CHR ''.'') (rev ext @ CHR ''.'' # rev stem) = rev ext"
    by (rule takeWhile_until)
  then have "takeWhile (\<lambda>x. x \<noteq> CHR ''.'') (rev (stem @ ''.'' @ ext)) = rev ext"
    by simp
  then show ?thesis by (simp add: rfind_def)
qed

lemma suffix_last_extension:
  assumes "name p = stem @ ''.'' @ ext" and "stem \<noteq> []" and "ext \<noteq> []"
    and "CHR ''.'' \<notin> set ext"
  shows "suffix p = ''.'' @ ext"
  using assms rfind_last_dot [OF assms(4), of stem]
  by (simp add: suffix_def Let_def)

lemma suffix_no_dot:
  assumes "CHR ''.'' \<notin> set (name p)"
  shows "suffix p = []"
  using assms by (simp add: suffix_def rfind_def)

lemma dot_ext_contains:
  assumes "c \<noteq> CHR ''.''"
  shows "(\<exists>a b. ''.'' @ ext = a @ (c # s) @ b) \<longleftrightarrow> (\<exists>a b. ext = a @ (c # s) @ b)"
proof
  assume "\<exists>a b. ''.'' @ ext = a @ (c # s) @ b"
  then obtain a b where ab: "''.'' @ ext = a @ (c # s) @ b" by blast
  show "\<exists>a b. ext = a @ (c # s) @ b"
  proof (cases a)
    case Nil
    with ab assms show ?thesis by simp
  next
    case (Cons x a')
    with ab have "ext = a' @ (c # s) @ b" by simp
    then show ?thesis by blast
  qed
next
  assume "\<exists>a b. ext = a @ (c # s) @ b"
  then obtain a b where "ext = a @ (c # s) @ b" by blast
  then have "''.'' @ ext = (CHR ''.'' # a) @ (c # s) @ b" by simp
  then show "\<exists>a b. ''.'' @ ext = a @ (c # s) @ b" by blast
qed

subsection \<open>The primitives used leave the file system as it is\<close>

lemma exists_snd: "snd (exists p w) = w"
  by (simp add: exists_def)

lemma exists_fst: "fst (exists p w) = (files w (resolve w p) \<noteq> None)"
  by (simp add: exists_def)

lemma exists_pair: "exists p w = (fst (exists p w), w)"
  by (simp add: exists_def)

text \<open>Opening for writing, which the module never does, would not.\<close>

lemma open_wb_creates:
  "files w (resolve w p) = None \<Longrightarrow>
   files (snd (open_file p Mode_wb w)) (resolve w p) = Some (File [])"
  by (simp add: open_file_def Let_def)

lemma open_rb_snd: "snd (open_file p Mode_rb w) = w"
  by (simp add: open_file_def Let_def split: option.splits node.splits)

lemma file_read_snd: "snd (file_read f w) = w"
  by (simp add: file_read_def split: option.splits node.splits)

lemma load_snd: "snd (load_config_from_file e p w) = w"
proof (cases "open_file p Mode_rb w")
  case (Pair r w1)
  then have w1: "w1 = w" using open_rb_snd [of p w] by simp
  show ?thesis
  proof (cases r)
    case (Inl err)
    with Pair w1 show ?thesis by (simp add: load_config_from_file_def)
  next
    case (Inr f)
    obtain data w2 where rd: "file_read f w = (data, w2)" by (cases "file_read f w")
    then have "w2 = w" using file_read_snd [of f w] by simp
    with Pair w1 Inr rd show ?thesis by (simp add: load_config_from_file_def)
  qed
qed

lemma load_pair: "load_config_from_file e p w = (fst (load_config_from_file e p w), w)"
  using load_snd [of e p w] by (metis prod.collapse)

subsection \<open>The loader on a regular file\<close>

lemma load_file:
  assumes "files w (resolve w p) = Some (File data)"
  shows "fst (load_config_from_file e p w) =
     (if str_in ''toml'' (suffix p) then TomlConfig e data p
      else if str_in ''json'' (suffix p) then JsonConfig e data p
      else if str_in ''yaml'' (suffix p) then YAMLConfig e data p
      else Inl (InvalidConfigurationError
                  ''Config file should have a valid extension: toml, yaml or json''))"
  using assms by (simp add: load_config_from_file_def open_file_def file_read_def)

subsection \<open>The search loop\<close>

lemma find_loop_step:
  "find_loop e (c # rest) w =
     (if \<not> fst (exists c w) then find_loop e rest w
      else (case fst (load_config_from_file e c w) of
              Inl err \<Rightarrow> (Inl err, w)
            | Inr conf \<Rightarrow> if \<not> is_empty_config conf then (Inr (Some conf), w)
                           else find_loop e rest w))"
proof -
  have "find_loop e (c # rest) w =
     (if \<not> fst (exists c w) then find_loop e rest w
      else (case (fst (load_config_from_file e c w), w) of
                (Inl err, w2) \<Rightarrow> (Inl err, w2)
              | (Inr conf, w2) \<Rightarrow>
                  if \<not> is_empty_config conf then (Inr (Some conf), w2)
                  else find_loop e rest w2))"
    using load_pair [of e c w] by (simp add: exists_def)
  then show ?thesis by (simp split: sum.splits)
qed

lemma find_loop_snd: "snd (find_loop e ps w) = w"
  by (induction ps) (simp_all add: find_loop_step del: find_loop.simps(2) split: sum.splits)

lemma find_loop_skipped:
  "\<forall>q\<in>set pre. skipped e w q \<Longrightarrow> find_loop e (pre @ rest) w = find_loop e rest w"
  by (induction pre)
     (auto simp add: find_loop_step skipped_def simp del: find_loop.simps(2) split: sum.splits if_splits)

lemma find_loop_hit:
  assumes "fst (exists c w)" "fst (load_config_from_file e c w) = Inr conf"
    "\<not> is_empty_config conf"
  shows "find_loop e (c # post) w = (Inr (Some conf), w)"
  using assms by (simp add: find_loop_step del: find_loop.simps(2))

lemma find_loop_raise:
  assumes "fst (exists c w)" "fst (load_config_from_file e c w) = Inl err"
  shows "find_loop e (c # post) w = (Inl err, w)"
  using assms by (simp add: find_loop_step del: find_loop.simps(2))

subsection \<open>Order of the candidates\<close>

lemma cfg_paths_product:
  "cfg_paths e = map (\<lambda>(p, filename). joinpath p (Path filename))
                     (List.product (cfg_search_paths e) (config_files e))"
  by (simp add: cfg_paths_def product_concat_map map_concat comp_def)

lemma cfg_paths_length:
  "length (cfg_paths e) = length (cfg_search_paths e) * length (config_files e)"
  by (simp add: cfg_paths_product)

lemma cfg_paths_nth:
  assumes "k < length (cfg_search_paths e) * length (config_files e)"
  shows "cfg_paths e ! k =
           joinpath (cfg_search_paths e ! (k div length (config_files e)))
                    (Path (config_files e ! (k mod length (config_files e))))"
  using assms by (simp add: cfg_paths_product product_nth)

lemma cfg_paths_split:
  assumes "i < length (cfg_search_paths e)" and "j < length (config_files e)"
  shows "\<exists>pre post. cfg_paths e = pre @ joinpath (cfg_search_paths e ! i) (Path (config_files e ! j)) # post
           \<and> (\<forall>q\<in>set pre. \<exists>i' j'. i' < length (cfg_search_paths e) \<and> j' < length (config_files e)
                  \<and> (i' < i \<or> (i' = i \<and> j' < j))
                  \<and> q = joinpath (cfg_search_paths e ! i') (Path (config_files e ! j')))"
proof -
  let ?n = "length (config_files e)"
  let ?m = "length (cfg_search_paths e)"
  let ?k = "i * ?n + j"
  have "?k < Suc i * ?n" using assms(2) by simp
  also have "\<dots> \<le> ?m * ?n" using assms(1) by (simp only: mult_le_mono1 Suc_leI)
  finally have k: "?k < ?m * ?n" .
  have npos: "0 < ?n" by (rule le_less_trans [OF le0 assms(2)])
  have kdiv: "?k div ?n = i" using assms(2) npos by simp
  have kmod: "?k mod ?n = j" using assms(2) by simp
  have nth: "cfg_paths e ! ?k = joinpath (cfg_search_paths e ! i) (Path (config_files e ! j))"
    using cfg_paths_nth [OF k] kdiv kmod by simp
  have len: "?k < length (cfg_paths e)" using k by (simp add: cfg_paths_length)
  have split: "cfg_paths e = take ?k (cfg_paths e) @ cfg_paths e ! ?k # drop (Suc ?k) (cfg_paths e)"
    using len by (rule id_take_nth_drop)
  have earlier: "\<exists>i' j'. i' < ?m \<and> j' < ?n \<and> (i' < i \<or> (i' = i \<and> j' < j))
                  \<and> q = joinpath (cfg_search_paths e ! i') (Path (config_files e ! j'))"
    if "q \<in> set (take ?k (cfg_paths e))" for q
  proof -
    from that obtain k' where k': "k' < ?k" and q: "q = cfg_paths e ! k'"
      using len by (auto simp add: in_set_conv_nth)
    have k'm: "k' < ?m * ?n" using k' k by simp
    have q': "q = joinpath (cfg_search_paths e ! (k' div ?n)) (Path (config_files e ! (k' mod ?n)))"
      using cfg_paths_nth [OF k'm] q by simp
    have a: "k' div ?n < ?m" using k'm npos by (simp add: less_mult_imp_div_less)
    have b: "k' mod ?n < ?n" using npos by simp
    have "k' div ?n \<le> ?k div ?n" using k' by (simp add: div_le_mono)
    then have c: "k' div ?n \<le> i" using kdiv by simp
    have d: "k' mod ?n < j" if "k' div ?n = i"
    proof -
      have "k' = i * ?n + k' mod ?n" using that div_mult_mod_eq [of k' ?n] by simp
      then show ?thesis using k' by linarith
    qed
    from c d have "k' div ?n < i \<or> (k' div ?n = i \<and> k' mod ?n < j)" by auto
    with a b q' show ?thesis by blast
  qed
  from split nth earlier show ?thesis by metis
qed


section \<open>The claims\<close>

subsection \<open>Default search: the first candidate with a section\<close>

text \<open>
  Claim C1. In default-search mode the candidates are the pairs of a directory and a
  default file name, directory-major and file-name-minor. If the candidate at position
  \<open>(i, j)\<close> exists and loads into a non-empty configuration, and every candidate at a
  lexicographically earlier position \<open>(i', j')\<close> either does not exist or loads into an
  empty configuration, then the search returns the configuration of the candidate at
  \<open>(i, j)\<close>: the earlier ones are passed over without an error, the later ones do not
  matter.
\<close>

theorem default_search_first_nonempty:
  assumes "i < length (cfg_search_paths e)" and "j < length (config_files e)"
    and "c = joinpath (cfg_search_paths e ! i) (Path (config_files e ! j))"
    and "\<forall>i' j'. i' < length (cfg_search_paths e) \<and> j' < length (config_files e)
                \<and> (i' < i \<or> (i' = i \<and> j' < j))
           \<longrightarrow> skipped e w (joinpath (cfg_search_paths e ! i') (Path (config_files e ! j')))"
    and "fst (exists c w)"
    and "fst (load_config_from_file e c w) = Inr conf"
    and "\<not> is_empty_config conf"
  shows "find_config_from_defaults e w = (Inr (Some conf), w)
         \<and> read_cfg e None w = (Inr conf, w)"
proof -
  obtain pre post where split: "cfg_paths e = pre @ c # post"
    and pre: "\<forall>q\<in>set pre. \<exists>i' j'. i' < length (cfg_search_paths e) \<and> j' < length (config_files e)
                  \<and> (i' < i \<or> (i' = i \<and> j' < j))
                  \<and> q = joinpath (cfg_search_paths e ! i') (Path (config_files e ! j'))"
    using cfg_paths_split [OF assms(1,2)] assms(3) by blast
  have "skipped e w q" if "q \<in> set pre" for q
  proof -
    from pre that obtain i' j' where h: "i' < length (cfg_search_paths e)"
        "j' < length (config_files e)" "i' < i \<or> (i' = i \<and> j' < j)"
      and q: "q = joinpath (cfg_search_paths e ! i') (Path (config_files e ! j'))"
      by blast
    from assms(4) h
    have "skipped e w (joinpath (cfg_search_paths e ! i') (Path (config_files e ! j')))"
      by simp
    with q show ?thesis by simp
  qed
  then have "\<forall>q\<in>set pre. skipped e w q" by simp
  then have "find_loop e (pre @ c # post) w = find_loop e (c # post) w"
    by (rule find_loop_skipped)
  also have "\<dots> = (Inr (Some conf), w)" using assms(5-7) by (rule find_loop_hit)
  finally have f: "find_config_from_defaults e w = (Inr (Some conf), w)"
    by (simp add: find_config_from_defaults_def split)
  then show ?thesis by (simp add: read_cfg_def)
qed

text \<open>
  Below the git root: the four candidates of the working directory are missing, the
  root's \<^verbatim>\<open>pyproject.toml\<close> is empty, the root's \<^verbatim>\<open>.cz.toml\<close> is returned.
\<close>

theorem default_search_first_nonempty_witness:
  "cfg_paths env_git_root ! 5 = PosixPath True [''repo'', ''.cz.toml'']
   \<and> skipped env_git_root world_sub (PosixPath False [''pyproject.toml''])
   \<and> skipped env_git_root world_sub (PosixPath True [''repo'', ''pyproject.toml''])
   \<and> read_cfg env_git_root None world_sub =
         (Inr (conf_cz_toml (PosixPath True [''repo'', ''.cz.toml''])), world_sub)"
proof -
  let ?c = "PosixPath True [''repo'', ''.cz.toml'']"
  let ?cand = "\<lambda>i j. joinpath (cfg_search_paths env_git_root ! i)
                             (Path (config_files env_git_root ! j))"
  have h1: "1 < length (cfg_search_paths env_git_root)" by code_simp
  have h2: "1 < length (config_files env_git_root)" by code_simp
  have h3: "?c = ?cand 1 1" by code_simp
  have l1: "length (cfg_search_paths env_git_root) = 2" by code_simp
  have l2: "length (config_files env_git_root) = 4" by code_simp
  have s00: "skipped env_git_root world_sub (?cand 0 0)" by code_simp
  have s01: "skipped env_git_root world_sub (?cand 0 1)" by code_simp
  have s02: "skipped env_git_root world_sub (?cand 0 2)" by code_simp
  have s03: "skipped env_git_root world_sub (?cand 0 3)" by code_simp
  have s10: "skipped env_git_root world_sub (?cand 1 0)" by code_simp
  have h4: "\<forall>i' j'. i' < length (cfg_search_paths env_git_root)
                \<and> j' < length (config_files env_git_root)
                \<and> (i' < 1 \<or> (i' = 1 \<and> j' < 1))
           \<longrightarrow> skipped env_git_root world_sub (?cand i' j')"
  proof (intro allI impI)
    fix i' j'
    assume "i' < length (cfg_search_paths env_git_root)
                \<and> j' < length (config_files env_git_root)
                \<and> (i' < 1 \<or> (i' = 1 \<and> j' < 1))"
    then have "i' < 2" "j' < 4" "i' < 1 \<or> (i' = 1 \<and> j' < 1)" by (simp_all add: l1 l2)
    then consider "i' = 0 \<and> j' = 0" | "i' = 0 \<and> j' = 1" | "i' = 0 \<and> j' = 2"
      | "i' = 0 \<and> j' = 3" | "i' = 1 \<and> j' = 0"
      by linarith
    then show "skipped env_git_root world_sub (?cand i' j')"
      using s00 s01 s02 s03 s10 by cases simp_all
  qed
  have h5: "fst (exists ?c world_sub)" by code_simp
  have h6: "fst (load_config_from_file env_git_root ?c world_sub) = Inr (conf_cz_toml ?c)"
    by code_simp
  have h7: "\<not> is_empty_config (conf_cz_toml ?c)" by code_simp
  have a: "cfg_paths env_git_root ! 5 = ?c" by code_simp
  have b: "skipped env_git_root world_sub (PosixPath False [''pyproject.toml''])" by code_simp
  have c: "skipped env_git_root world_sub (PosixPath True [''repo'', ''pyproject.toml''])"
    by code_simp
  from default_search_first_nonempty [OF h1 h2 h3 h4 h5 h6 h7] a b c show ?thesis by simp
qed

subsection \<open>Default search: the candidate directories\<close>

text \<open>
  Claim C2, as the code has it. The list of directories is the working directory, written
  \<^verbatim>\<open>Path(".")\<close>, followed by the git project root whenever there is one. The root is
  not compared with the working directory: it is appended also when it is the working
  directory itself.
\<close>

theorem search_paths_cwd_then_git_root:
  "hd (cfg_search_paths e) = Path ''.''
   \<and> (find_git_project_root e = None \<longrightarrow> cfg_search_paths e = [Path ''.''])
   \<and> (\<forall>r. find_git_project_root e = Some r \<longrightarrow> cfg_search_paths e = [Path ''.'', r])"
  by (simp add: cfg_search_paths_def Let_def split: option.splits)

theorem search_paths_cwd_then_git_root_witness:
  "find_git_project_root env_git_root = Some (PosixPath True [''repo''])
   \<and> cfg_search_paths env_git_root = [Path ''.'', PosixPath True [''repo'']]
   \<and> find_git_project_root env_no_git = None
   \<and> cfg_search_paths env_no_git = [Path ''.'']"
proof -
  have a: "find_git_project_root env_git_root = Some (PosixPath True [''repo''])"
    by (simp add: env_git_root_def)
  have b: "find_git_project_root env_no_git = None" by (simp add: env_no_git_def)
  from search_paths_cwd_then_git_root [of env_git_root]
       search_paths_cwd_then_git_root [of env_no_git] a b
  show ?thesis by simp
qed

text \<open>
  The claim as it is written fails where the git root is the working directory: in
  \<^verbatim>\<open>/repo\<close> the root \<^verbatim>\<open>/repo\<close> names the same directory as \<^verbatim>\<open>Path(".")\<close> and is in the
  list all the same; the candidates built from the two entries name the same files.
\<close>

theorem git_root_equal_cwd_counterexample:
  "find_git_project_root env_git_root = Some (PosixPath True [''repo''])
   \<and> resolve world_repo (PosixPath True [''repo'']) = resolve world_repo (Path ''.'')
   \<and> PosixPath True [''repo''] \<in> set (cfg_search_paths env_git_root)
   \<and> map (resolve world_repo) (cfg_paths env_git_root) =
        [[''repo'', ''pyproject.toml''], [''repo'', ''.cz.toml''],
         [''repo'', ''.cz.json''], [''repo'', ''.cz.yaml''],
         [''repo'', ''pyproject.toml''], [''repo'', ''.cz.toml''],
         [''repo'', ''.cz.json''], [''repo'', ''.cz.yaml'']]"
  by code_simp

subsection \<open>The loader: choice of the format class\<close>

text \<open>
  Claim C3. For a path that names an existing file, whatever its content \<open>data\<close>, the
  loader hands the content to \<^verbatim>\<open>TomlConfig\<close> when \<^verbatim>\<open>toml\<close> is a substring of the path's
  suffix, else to \<^verbatim>\<open>JsonConfig\<close> when \<^verbatim>\<open>json\<close> is, else to \<^verbatim>\<open>YAMLConfig\<close> when \<^verbatim>\<open>yaml\<close>
  is; the suffix need not be equal to \<^verbatim>\<open>.toml\<close>, \<^verbatim>\<open>.json\<close> or \<^verbatim>\<open>.yaml\<close>. When the suffix
  has none of the three substrings the loader raises \<^verbatim>\<open>InvalidConfigurationError\<close>
  with the message that lists the valid extensions, and the content plays no part.

  In terms of the file name: when the name is \<^verbatim>\<open>stem.ext\<close>, with \<^verbatim>\<open>ext\<close> free of dots and
  neither part empty, the suffix is \<^verbatim>\<open>.ext\<close> and the class is chosen by the substrings
  of \<^verbatim>\<open>ext\<close>, in the same order; a name without a dot raises the error.
\<close>

theorem loader_selects_by_substring:
  assumes "files w (resolve w p) = Some (File data)"
  shows "fst (load_config_from_file e p w) =
     (if \<exists>a b. suffix p = a @ ''toml'' @ b then TomlConfig e data p
      else if \<exists>a b. suffix p = a @ ''json'' @ b then JsonConfig e data p
      else if \<exists>a b. suffix p = a @ ''yaml'' @ b then YAMLConfig e data p
      else Inl (InvalidConfigurationError
                  ''Config file should have a valid extension: toml, yaml or json''))
   \<and> (\<forall>stem ext. name p = stem @ ''.'' @ ext \<and> stem \<noteq> [] \<and> ext \<noteq> []
          \<and> CHR ''.'' \<notin> set ext \<longrightarrow>
        suffix p = ''.'' @ ext \<and>
        fst (load_config_from_file e p w) =
          (if \<exists>a b. ext = a @ ''toml'' @ b then TomlConfig e data p
           else if \<exists>a b. ext = a @ ''json'' @ b then JsonConfig e data p
           else if \<exists>a b. ext = a @ ''yaml'' @ b then YAMLConfig e data p
           else Inl (InvalidConfigurationError
                  ''Config file should have a valid extension: toml, yaml or json'')))
   \<and> (CHR ''.'' \<notin> set (name p) \<longrightarrow>
        fst (load_config_from_file e p w) =
          Inl (InvalidConfigurationError
                  ''Config file should have a valid extension: toml, yaml or json''))"
proof -
  have A: "fst (load_config_from_file e p w) =
     (if \<exists>a b. suffix p = a @ ''toml'' @ b then TomlConfig e data p
      else if \<exists>a b. suffix p = a @ ''json'' @ b then JsonConfig e data p
      else if \<exists>a b. suffix p = a @ ''yaml'' @ b then YAMLConfig e data p
      else Inl (InvalidConfigurationError
                  ''Config file should have a valid extension: toml, yaml or json''))"
    using load_file [OF assms, of e] by (simp only: str_in_iff)
  have B: "suffix p = ''.'' @ ext \<and>
        fst (load_config_from_file e p w) =
          (if \<exists>a b. ext = a @ ''toml'' @ b then TomlConfig e data p
           else if \<exists>a b. ext = a @ ''json'' @ b then JsonConfig e data p
           else if \<exists>a b. ext = a @ ''yaml'' @ b then YAMLConfig e data p
           else Inl (InvalidConfigurationError
                  ''Config file should have a valid extension: toml, yaml or json''))"
    if "name p = stem @ ''.'' @ ext \<and> stem \<noteq> [] \<and> ext \<noteq> [] \<and> CHR ''.'' \<notin> set ext"
    for stem ext
  proof -
    have s: "suffix p = ''.'' @ ext" using that by (simp add: suffix_last_extension)
    have t: "(\<exists>a b. ''.'' @ ext = a @ ''toml'' @ b) \<longleftrightarrow> (\<exists>a b. ext = a @ ''toml'' @ b)"
      by (rule dot_ext_contains) simp
    have j: "(\<exists>a b. ''.'' @ ext = a @ ''json'' @ b) \<longleftrightarrow> (\<exists>a b. ext = a @ ''json'' @ b)"
      by (rule dot_ext_contains) simp
    have y: "(\<exists>a b. ''.'' @ ext = a @ ''yaml'' @ b) \<longleftrightarrow> (\<exists>a b. ext = a @ ''yaml'' @ b)"
      by (rule dot_ext_contains) simp
    from A show ?thesis unfolding s t j y by simp
  qed
  have C: "fst (load_config_from_file e p w) =
          Inl (InvalidConfigurationError
                  ''Config file should have a valid extension: toml, yaml or json'')"
    if "CHR ''.'' \<notin> set (name p)"
  proof -
    have "suffix p = []" using that by (rule suffix_no_dot)
    with A show ?thesis by simp
  qed
  from A B C show ?thesis by blast
qed

text \<open>
  In a directory that holds them, \<^verbatim>\<open>.cz.toml\<close>, \<^verbatim>\<open>.cz.json\<close> and \<^verbatim>\<open>.cz.yaml\<close> are handed
  to the class of their format. \<^verbatim>\<open>cz.tomlrc\<close>, whose suffix \<^verbatim>\<open>.tomlrc\<close> is not \<^verbatim>\<open>.toml\<close>,
  is handed to \<^verbatim>\<open>TomlConfig\<close>, and so is \<^verbatim>\<open>cz.jsontoml\<close>, where \<^verbatim>\<open>toml\<close> goes before
  \<^verbatim>\<open>json\<close>. \<^verbatim>\<open>file.txt\<close> and \<^verbatim>\<open>Makefile\<close> raise the error.
\<close>

theorem loader_selects_by_substring_witness:
  "files world_ext (resolve world_ext (Path ''.cz.toml'')) = Some (File [0x5B, 0x74])
   \<and> files world_ext (resolve world_ext (Path ''.cz.json'')) = Some (File [0x7B, 0x7D])
   \<and> files world_ext (resolve world_ext (Path ''.cz.yaml'')) = Some (File [0x63, 0x3A])
   \<and> files world_ext (resolve world_ext (Path ''cz.tomlrc'')) = Some (File [0x5B, 0x74])
   \<and> files world_ext (resolve world_ext (Path ''cz.jsontoml'')) = Some (File [0x7B, 0x7D])
   \<and> files world_ext (resolve world_ext (Path ''file.txt'')) = Some (File [])
   \<and> files world_ext (resolve world_ext (Path ''Makefile'')) = Some (File [0x61])
   \<and> fst (load_config_from_file env_no_git (Path ''.cz.toml'') world_ext) =
      sample_class Toml_class [0x5B, 0x74] (Path ''.cz.toml'')
   \<and> fst (load_config_from_file env_no_git (Path ''.cz.json'') world_ext) =
      sample_class Json_class [0x7B, 0x7D] (Path ''.cz.json'')
   \<and> fst (load_config_from_file env_no_git (Path ''.cz.yaml'') world_ext) =
      sample_class YAML_class [0x63, 0x3A] (Path ''.cz.yaml'')
   \<and> suffix (Path ''cz.tomlrc'') = ''.tomlrc''
   \<and> fst (load_config_from_file env_no_git (Path ''cz.tomlrc'') world_ext) =
      sample_class Toml_class [0x5B, 0x74] (Path ''cz.tomlrc'')
   \<and> fst (load_config_from_file env_no_git (Path ''cz.jsontoml'') world_ext) =
      sample_class Toml_class [0x7B, 0x7D] (Path ''cz.jsontoml'')
   \<and> fst (load_config_from_file env_no_git (Path ''file.txt'') world_ext) =
      Inl (InvalidConfigurationError
             ''Config file should have a valid extension: toml, yaml or json'')
   \<and> fst (load_config_from_file env_no_git (Path ''Makefile'') world_ext) =
      Inl (InvalidConfigurationError
             ''Config file should have a valid extension: toml, yaml or json'')
   \<and> cls (projr (sample_class Toml_class [0x5B, 0x74] (Path ''.cz.toml''))) = Toml_class"
proof -
  let ?e = env_no_git
  have e: "TomlConfig ?e = sample_class Toml_class" "JsonConfig ?e = sample_class Json_class"
    "YAMLConfig ?e = sample_class YAML_class"
    by (simp_all add: env_no_git_def)
  have f1: "files world_ext (resolve world_ext (Path ''.cz.toml'')) = Some (File [0x5B, 0x74])"
    by code_simp
  have f2: "files world_ext (resolve world_ext (Path ''.cz.json'')) = Some (File [0x7B, 0x7D])"
    by code_simp
  have f3: "files world_ext (resolve world_ext (Path ''.cz.yaml'')) = Some (File [0x63, 0x3A])"
    by code_simp
  have f4: "files world_ext (resolve world_ext (Path ''cz.tomlrc'')) = Some (File [0x5B, 0x74])"
    by code_simp
  have f5: "files world_ext (resolve world_ext (Path ''cz.jsontoml'')) = Some (File [0x7B, 0x7D])"
    by code_simp
  have f6: "files world_ext (resolve world_ext (Path ''file.txt'')) = Some (File [])"
    by code_simp
  have f7: "files world_ext (resolve world_ext (Path ''Makefile'')) = Some (File [0x61])"
    by code_simp
  have n1: "name (Path ''.cz.toml'') = ''.cz'' @ ''.'' @ ''toml''" by code_simp
  have n2: "name (Path ''.cz.json'') = ''.cz'' @ ''.'' @ ''json''" by code_simp
  have n3: "name (Path ''.cz.yaml'') = ''.cz'' @ ''.'' @ ''yaml''" by code_simp
  have n4: "name (Path ''cz.tomlrc'') = ''cz'' @ ''.'' @ ''tomlrc''" by code_simp
  have n5: "name (Path ''cz.jsontoml'') = ''cz'' @ ''.'' @ ''jsontoml''" by code_simp
  have n6: "name (Path ''file.txt'') = ''file'' @ ''.'' @ ''txt''" by code_simp
  have n7: "CHR ''.'' \<notin> set (name (Path ''Makefile''))" by code_simp
  have s: "str_in ''toml'' ''toml''" "\<not> str_in ''toml'' ''json''" "str_in ''json'' ''json''"
    "\<not> str_in ''toml'' ''yaml''" "\<not> str_in ''json'' ''yaml''" "str_in ''yaml'' ''yaml''"
    "str_in ''toml'' ''tomlrc''" "str_in ''toml'' ''jsontoml''"
    "\<not> str_in ''toml'' ''txt''" "\<not> str_in ''json'' ''txt''" "\<not> str_in ''yaml'' ''txt''"
    by code_simp+
  note ex = s [unfolded str_in_iff]
  have p1: "name (Path ''.cz.toml'') = ''.cz'' @ ''.'' @ ''toml'' \<and> ''.cz'' \<noteq> [] \<and> ''toml'' \<noteq> []
             \<and> CHR ''.'' \<notin> set ''toml''"
    using n1 by simp
  have r1: "suffix (Path ''.cz.toml'') = ''.'' @ ''toml'' \<and>
            fst (load_config_from_file ?e (Path ''.cz.toml'') world_ext) =
              TomlConfig ?e [0x5B, 0x74] (Path ''.cz.toml'')"
    using loader_selects_by_substring [OF f1, of ?e, THEN conjunct2, THEN conjunct1,
        rule_format, OF p1]
    by (simp only: ex if_True if_False simp_thms)
  have p2: "name (Path ''.cz.json'') = ''.cz'' @ ''.'' @ ''json'' \<and> ''.cz'' \<noteq> [] \<and> ''json'' \<noteq> []
             \<and> CHR ''.'' \<notin> set ''json''"
    using n2 by simp
  have r2: "suffix (Path ''.cz.json'') = ''.'' @ ''json'' \<and>
            fst (load_config_from_file ?e (Path ''.cz.json'') world_ext) =
              JsonConfig ?e [0x7B, 0x7D] (Path ''.cz.json'')"
    using loader_selects_by_substring [OF f2, of ?e, THEN conjunct2, THEN conjunct1,
        rule_format, OF p2]
    by (simp only: ex if_True if_False simp_thms)
  have p3: "name (Path ''.cz.yaml'') = ''.cz'' @ ''.'' @ ''yaml'' \<and> ''.cz'' \<noteq> [] \<and> ''yaml'' \<noteq> []
             \<and> CHR ''.'' \<notin> set ''yaml''"
    using n3 by simp
  have r3: "suffix (Path ''.cz.yaml'') = ''.'' @ ''yaml'' \<and>
            fst (load_config_from_file ?e (Path ''.cz.yaml'') world_ext) =
              YAMLConfig ?e [0x63, 0x3A] (Path ''.cz.yaml'')"
    using loader_selects_by_substring [OF f3, of ?e, THEN conjunct2, THEN conjunct1,
        rule_format, OF p3]
    by (simp only: ex if_True if_False simp_thms)
  have p4: "name (Path ''cz.tomlrc'') = ''cz'' @ ''.'' @ ''tomlrc'' \<and> ''cz'' \<noteq> [] \<and> ''tomlrc'' \<noteq> []
             \<and> CHR ''.'' \<notin> set ''tomlrc''"
    using n4 by simp
  have r4: "suffix (Path ''cz.tomlrc'') = ''.'' @ ''tomlrc'' \<and>
            fst (load_config_from_file ?e (Path ''cz.tomlrc'') world_ext) =
              TomlConfig ?e [0x5B, 0x74] (Path ''cz.tomlrc'')"
    using loader_selects_by_substring [OF f4, of ?e, THEN conjunct2, THEN conjunct1,
        rule_format, OF p4]
    by (simp only: ex if_True if_False simp_thms)
  have p5: "name (Path ''cz.jsontoml'') = ''cz'' @ ''.'' @ ''jsontoml'' \<and> ''cz'' \<noteq> [] \<and> ''jsontoml'' \<noteq> []
             \<and> CHR ''.'' \<notin> set ''jsontoml''"
    using n5 by simp
  have r5: "suffix (Path ''cz.jsontoml'') = ''.'' @ ''jsontoml'' \<and>
            fst (load_config_from_file ?e (Path ''cz.jsontoml'') world_ext) =
              TomlConfig ?e [0x7B, 0x7D] (Path ''cz.jsontoml'')"
    using loader_selects_by_substring [OF f5, of ?e, THEN conjunct2, THEN conjunct1,
        rule_format, OF p5]
    by (simp only: ex if_True if_False simp_thms)
  have p6: "name (Path ''file.txt'') = ''file'' @ ''.'' @ ''txt'' \<and> ''file'' \<noteq> [] \<and> ''txt'' \<noteq> []
             \<and> CHR ''.'' \<notin> set ''txt''"
    using n6 by simp
  have r6: "suffix (Path ''file.txt'') = ''.'' @ ''txt'' \<and>
            fst (load_config_from_file ?e (Path ''file.txt'') world_ext) =
      Inl (InvalidConfigurationError
             ''Config file should have a valid extension: toml, yaml or json'')"
    using loader_selects_by_substring [OF f6, of ?e, THEN conjunct2, THEN conjunct1,
        rule_format, OF p6]
    by (simp only: ex if_True if_False simp_thms)
  have r7: "fst (load_config_from_file ?e (Path ''Makefile'') world_ext) =
      Inl (InvalidConfigurationError
             ''Config file should have a valid extension: toml, yaml or json'')"
    using loader_selects_by_substring [OF f7, of ?e, THEN conjunct2, THEN conjunct2,
        rule_format, OF n7] .
  have c: "cls (projr (sample_class Toml_class [0x5B, 0x74] (Path ''.cz.toml''))) = Toml_class"
    by (simp add: sample_class_def)
  have sx: "''.'' @ ''tomlrc'' = ''.tomlrc''" by simp
  from f1 f2 f3 f4 f5 f6 f7 r1 r2 r3 r4 r5 r6 r7 c show ?thesis unfolding e sx by blast
qed

subsection \<open>The loader: only the last suffix counts\<close>

text \<open>
  Claim C4, as the code has it. The suffix of \<^verbatim>\<open>config.json.bak\<close> is \<^verbatim>\<open>.bak\<close>, which has
  none of the three substrings: for this name the loader raises the invalid-extension
  error, as it does for \<^verbatim>\<open>jsonfile.txt\<close>. The substring test is loose within the last
  suffix only: \<^verbatim>\<open>config.json5\<close> is handed to \<^verbatim>\<open>JsonConfig\<close>.
\<close>

theorem loader_last_suffix_only:
  "(files w (resolve w (Path ''config.json.bak'')) = Some (File data) \<longrightarrow>
      fst (load_config_from_file e (Path ''config.json.bak'') w) =
        Inl (InvalidConfigurationError
               ''Config file should have a valid extension: toml, yaml or json''))
   \<and> (files w (resolve w (Path ''jsonfile.txt'')) = Some (File data) \<longrightarrow>
      fst (load_config_from_file e (Path ''jsonfile.txt'') w) =
        Inl (InvalidConfigurationError
               ''Config file should have a valid extension: toml, yaml or json''))
   \<and> (files w (resolve w (Path ''config.json5'')) = Some (File data) \<longrightarrow>
      fst (load_config_from_file e (Path ''config.json5'') w) =
        JsonConfig e data (Path ''config.json5''))"
proof -
  have s1: "suffix (Path ''config.json.bak'') = ''.bak''" by code_simp
  have s2: "suffix (Path ''jsonfile.txt'') = ''.txt''" by code_simp
  have s3: "suffix (Path ''config.json5'') = ''.json5''" by code_simp
  have n1: "\<not> str_in ''toml'' ''.bak''" "\<not> str_in ''json'' ''.bak''"
    "\<not> str_in ''yaml'' ''.bak''"
    by code_simp+
  have n2: "\<not> str_in ''toml'' ''.txt''" "\<not> str_in ''json'' ''.txt''"
    "\<not> str_in ''yaml'' ''.txt''"
    by code_simp+
  have n3: "\<not> str_in ''toml'' ''.json5''" "str_in ''json'' ''.json5''"
    by code_simp+
  have a: "fst (load_config_from_file e (Path ''config.json.bak'') w) =
        Inl (InvalidConfigurationError
               ''Config file should have a valid extension: toml, yaml or json'')"
    if "files w (resolve w (Path ''config.json.bak'')) = Some (File data)"
    using load_file [OF that, of e] by (simp only: s1 n1 if_False)
  have b: "fst (load_config_from_file e (Path ''jsonfile.txt'') w) =
        Inl (InvalidConfigurationError
               ''Config file should have a valid extension: toml, yaml or json'')"
    if "files w (resolve w (Path ''jsonfile.txt'')) = Some (File data)"
    using load_file [OF that, of e] by (simp only: s2 n2 if_False)
  have c: "fst (load_config_from_file e (Path ''config.json5'') w) =
        JsonConfig e data (Path ''config.json5'')"
    if "files w (resolve w (Path ''config.json5'')) = Some (File data)"
    using load_file [OF that, of e] by (simp only: s3 n3 if_False if_True)
  from a b c show ?thesis by blast
qed

theorem loader_last_suffix_only_witness:
  "files world_repo (resolve world_repo (Path ''config.json.bak'')) = Some (File [0x7B, 0x7D])
   \<and> fst (load_config_from_file env_no_git (Path ''config.json.bak'') world_repo) =
        Inl (InvalidConfigurationError
               ''Config file should have a valid extension: toml, yaml or json'')
   \<and> fst (load_config_from_file env_no_git (Path ''jsonfile.txt'') world_repo) =
        Inl (InvalidConfigurationError
               ''Config file should have a valid extension: toml, yaml or json'')
   \<and> fst (load_config_from_file env_no_git (Path ''config.json5'') world_repo) =
        JsonConfig env_no_git [0x7B, 0x7D] (Path ''config.json5'')"
proof -
  have h1: "files world_repo (resolve world_repo (Path ''config.json.bak'')) =
              Some (File [0x7B, 0x7D])"
    by code_simp
  have h2: "files world_repo (resolve world_repo (Path ''jsonfile.txt'')) =
              Some (File [0x7B, 0x7D])"
    by code_simp
  have h3: "files world_repo (resolve world_repo (Path ''config.json5'')) =
              Some (File [0x7B, 0x7D])"
    by code_simp
  from loader_last_suffix_only [of world_repo "[0x7B, 0x7D]" env_no_git] h1 h2 h3
  show ?thesis by simp
qed

text \<open>
  The claim as it is written fails at \<^verbatim>\<open>config.json.bak\<close>: the file exists, and the loader
  raises instead of building the \<^verbatim>\<open>JsonConfig\<close>.
\<close>

theorem config_json_bak_counterexample:
  "files world_repo (resolve world_repo (Path ''config.json.bak'')) = Some (File [0x7B, 0x7D])
   \<and> suffix (Path ''config.json.bak'') = ''.bak''
   \<and> \<not> str_in ''json'' (suffix (Path ''config.json.bak''))
   \<and> fst (load_config_from_file env_no_git (Path ''config.json.bak'') world_repo) =
        Inl (InvalidConfigurationError
               ''Config file should have a valid extension: toml, yaml or json'')
   \<and> fst (load_config_from_file env_no_git (Path ''config.json.bak'') world_repo) \<noteq>
        JsonConfig env_no_git [0x7B, 0x7D] (Path ''config.json.bak'')"
  by code_simp

subsection \<open>Explicit path: a missing file\<close>

text \<open>
  Claim C5. With an explicit path that does not exist, \<^verbatim>\<open>read_cfg\<close> raises
  \<^verbatim>\<open>InvalidConfigurationError\<close> with the message \<^verbatim>\<open>File {path} not exists.\<close>, and the
  outcome is the same whatever the format classes and the other imports are: nothing
  is loaded or parsed.
\<close>

theorem explicit_path_missing:
  assumes "\<not> fst (exists p w)"
  shows "read_cfg e (Some p) w =
           (Inl (InvalidConfigurationError (''File '' @ str p @ '' not exists.'')), w)
         \<and> (\<forall>e'. read_cfg e' (Some p) w = read_cfg e (Some p) w)"
  using assms by (simp add: read_cfg_def exists_def)

theorem explicit_path_missing_witness:
  "\<not> fst (exists (Path ''file.yaml'') world_repo)
   \<and> read_cfg env_no_git (Some (Path ''file.yaml'')) world_repo =
        (Inl (InvalidConfigurationError ''File file.yaml not exists.''), world_repo)"
proof -
  have h: "\<not> fst (exists (Path ''file.yaml'') world_repo)" by code_simp
  have s: "str (Path ''file.yaml'') = ''file.yaml''" by code_simp
  from explicit_path_missing [OF h, of env_no_git] h s show ?thesis by simp
qed

subsection \<open>Explicit path: a file without a section\<close>

text \<open>
  Claim C6. With an explicit path that exists and loads into an empty configuration,
  \<^verbatim>\<open>read_cfg\<close> raises \<^verbatim>\<open>InvalidConfigurationError\<close>; the message names the file and ends
  with \<^verbatim>\<open>Fill it or don't use --config-file option.\<close>
\<close>

theorem explicit_path_empty:
  assumes "fst (exists p w)"
    and "fst (load_config_from_file e p w) = Inr conf"
    and "is_empty_config conf"
  shows "read_cfg e (Some p) w =
           (Inl (InvalidConfigurationError
                   (''File '' @ str p @ '' doesn't contain any configuration. ''
                    @ ''Fill it or don't use --config-file option.'')), w)"
proof -
  have "load_config_from_file e p w = (Inr conf, w)"
    using load_pair [of e p w] assms(2) by simp
  then show ?thesis using assms(1,3) by (simp add: read_cfg_def exists_def)
qed

theorem explicit_path_empty_witness:
  "fst (exists (Path ''file.toml'') world_repo)
   \<and> read_cfg env_no_git (Some (Path ''file.toml'')) world_repo =
        (Inl (InvalidConfigurationError
           (''File file.toml doesn't contain any configuration. ''
            @ ''Fill it or don't use --config-file option.'')), world_repo)"
proof -
  let ?conf = "\<lparr>cls = Toml_class, settings = sample_defaults,
                 path = Some (Path ''file.toml''), is_empty_config = True\<rparr>"
  have h1: "fst (exists (Path ''file.toml'') world_repo)" by code_simp
  have h2: "fst (load_config_from_file env_no_git (Path ''file.toml'') world_repo) = Inr ?conf"
    by code_simp
  have h3: "is_empty_config ?conf" by simp
  have s: "str (Path ''file.toml'') = ''file.toml''" by code_simp
  from explicit_path_empty [OF h1 h2 h3] h1 s show ?thesis by simp
qed

subsection \<open>Default search: nothing found\<close>

text \<open>
  Claim C7. In default-search mode, when every candidate is missing or loads into an
  empty configuration, the search finds nothing and \<^verbatim>\<open>read_cfg\<close> succeeds with the handle
  of \<^verbatim>\<open>BaseConfig()\<close>: its settings are the default settings and it has no path.
\<close>

theorem default_search_all_skipped:
  assumes "\<forall>c\<in>set (cfg_paths e). skipped e w c"
  shows "find_config_from_defaults e w = (Inr None, w)
         \<and> (\<exists>conf. read_cfg e None w = (Inr conf, w)
                \<and> settings conf = DEFAULT_SETTINGS e \<and> path conf = None)"
proof -
  have "find_loop e (cfg_paths e @ []) w = find_loop e [] w"
    using assms by (rule find_loop_skipped)
  then have f: "find_config_from_defaults e w = (Inr None, w)"
    by (simp add: find_config_from_defaults_def)
  then have "read_cfg e None w = (Inr (BaseConfig e), w)" by (simp add: read_cfg_def)
  moreover have "settings (BaseConfig e) = DEFAULT_SETTINGS e" "path (BaseConfig e) = None"
    by (simp_all add: BaseConfig_def)
  ultimately show ?thesis using f by blast
qed

text \<open>In \<^verbatim>\<open>/tmp\<close>, where the only candidate present is an empty \<^verbatim>\<open>.cz.json\<close>.\<close>

theorem default_search_all_skipped_witness:
  "fst (exists (PosixPath False [''.cz.json'']) world_tmp)
   \<and> list_all (skipped env_no_git world_tmp) (cfg_paths env_no_git)
   \<and> read_cfg env_no_git None world_tmp =
        (Inr \<lparr>cls = Base_class, settings = sample_defaults, path = None,
              is_empty_config = False\<rparr>, world_tmp)"
proof -
  have a: "list_all (skipped env_no_git world_tmp) (cfg_paths env_no_git)" by code_simp
  then have h: "\<forall>c\<in>set (cfg_paths env_no_git). skipped env_no_git world_tmp c"
    by (simp add: list_all_iff)
  have b: "fst (exists (PosixPath False [''.cz.json'']) world_tmp)" by code_simp
  obtain conf where c: "read_cfg env_no_git None world_tmp = (Inr conf, world_tmp)"
    "settings conf = DEFAULT_SETTINGS env_no_git" "path conf = None"
    using default_search_all_skipped [OF h] by blast
  have "fst (read_cfg env_no_git None world_tmp) =
        Inr \<lparr>cls = Base_class, settings = sample_defaults, path = None,
              is_empty_config = False\<rparr>"
    by code_simp
  with c(1) have "read_cfg env_no_git None world_tmp =
        (Inr \<lparr>cls = Base_class, settings = sample_defaults, path = None,
              is_empty_config = False\<rparr>, world_tmp)"
    by simp
  with a b show ?thesis by simp
qed

subsection \<open>Default search: an empty file before a populated one\<close>

text \<open>
  Claim C8. In default-search mode, when an earlier candidate exists and loads into an
  empty configuration, a later candidate exists and loads into a non-empty one, and
  every other candidate before the later one is missing or empty, \<^verbatim>\<open>read_cfg\<close> returns
  the later candidate's configuration, not the handle of defaults.
\<close>

theorem empty_candidate_before_populated:
  assumes "cfg_paths e = pre @ c1 # mid @ c2 # post"
    and "\<forall>q\<in>set pre \<union> set mid. skipped e w q"
    and "fst (exists c1 w)"
    and "fst (load_config_from_file e c1 w) = Inr conf1" and "is_empty_config conf1"
    and "fst (exists c2 w)"
    and "fst (load_config_from_file e c2 w) = Inr conf2" and "\<not> is_empty_config conf2"
  shows "read_cfg e None w = (Inr conf2, w)"
proof -
  have "skipped e w c1" using assms(3-5) by (simp add: skipped_def)
  then have "\<forall>q\<in>set (pre @ c1 # mid). skipped e w q" using assms(2) by auto
  then have "find_loop e ((pre @ c1 # mid) @ c2 # post) w = find_loop e (c2 # post) w"
    by (rule find_loop_skipped)
  also have "\<dots> = (Inr (Some conf2), w)" using assms(6-8) by (rule find_loop_hit)
  finally have "find_config_from_defaults e w = (Inr (Some conf2), w)"
    by (simp add: find_config_from_defaults_def assms(1))
  then show ?thesis by (simp add: read_cfg_def)
qed

text \<open>An empty \<^verbatim>\<open>pyproject.toml\<close> beside a populated \<^verbatim>\<open>.cz.toml\<close>.\<close>

theorem empty_candidate_before_populated_witness:
  "fst (load_config_from_file env_no_git (PosixPath False [''pyproject.toml'']) world_repo) =
      Inr \<lparr>cls = Toml_class, settings = sample_defaults,
           path = Some (PosixPath False [''pyproject.toml'']), is_empty_config = True\<rparr>
   \<and> read_cfg env_no_git None world_repo =
        (Inr (conf_cz_toml (PosixPath False [''.cz.toml''])), world_repo)
   \<and> settings (conf_cz_toml (PosixPath False [''.cz.toml''])) \<noteq> DEFAULT_SETTINGS env_no_git"
proof -
  let ?c1 = "PosixPath False [''pyproject.toml'']"
  let ?c2 = "PosixPath False [''.cz.toml'']"
  let ?conf1 = "\<lparr>cls = Toml_class, settings = sample_defaults,
                  path = Some ?c1, is_empty_config = True\<rparr>"
  have h1: "cfg_paths env_no_git =
      [] @ ?c1 # [] @ ?c2 # [PosixPath False [''.cz.json''], PosixPath False [''.cz.yaml'']]"
    by code_simp
  have h2: "\<forall>q\<in>set [] \<union> set []. skipped env_no_git world_repo q" by simp
  have h3: "fst (exists ?c1 world_repo)" by code_simp
  have h4: "fst (load_config_from_file env_no_git ?c1 world_repo) = Inr ?conf1" by code_simp
  have h5: "is_empty_config ?conf1" by simp
  have h6: "fst (exists ?c2 world_repo)" by code_simp
  have h7: "fst (load_config_from_file env_no_git ?c2 world_repo) = Inr (conf_cz_toml ?c2)"
    by code_simp
  have h8: "\<not> is_empty_config (conf_cz_toml ?c2)" by code_simp
  have d: "settings (conf_cz_toml ?c2) \<noteq> DEFAULT_SETTINGS env_no_git" by code_simp
  from empty_candidate_before_populated [OF h1 h2 h3 h4 h5 h6 h7 h8] h4 d
  show ?thesis by simp
qed

subsection \<open>Default search: an error ends the search\<close>

text \<open>
  Claim C9. In default-search mode, when a candidate exists and loading it raises (the
  format class rejects its content), and every earlier candidate is missing or empty,
  the error is the outcome of the search and of \<^verbatim>\<open>read_cfg\<close>, whatever candidates
  follow: they are not tried.
\<close>

theorem load_error_ends_search:
  assumes "cfg_paths e = pre @ c # post"
    and "\<forall>q\<in>set pre. skipped e w q"
    and "fst (exists c w)"
    and "fst (load_config_from_file e c w) = Inl err"
  shows "find_config_from_defaults e w = (Inl err, w)
         \<and> read_cfg e None w = (Inl err, w)
         \<and> (\<forall>later. find_loop e (pre @ c # later) w = (Inl err, w))"
proof -
  have l: "find_loop e (pre @ c # later) w = (Inl err, w)" for later
  proof -
    have "find_loop e (pre @ c # later) w = find_loop e (c # later) w"
      using assms(2) by (rule find_loop_skipped)
    also have "\<dots> = (Inl err, w)" using assms(3,4) by (rule find_loop_raise)
    finally show ?thesis .
  qed
  then have f: "find_config_from_defaults e w = (Inl err, w)"
    by (simp add: find_config_from_defaults_def assms(1))
  then have "read_cfg e None w = (Inl err, w)" by (simp add: read_cfg_def)
  with f l show ?thesis by blast
qed

text \<open>A malformed \<^verbatim>\<open>pyproject.toml\<close> hides the good \<^verbatim>\<open>.cz.toml\<close> beside it.\<close>

theorem load_error_ends_search_witness:
  "fst (load_config_from_file env_no_git (PosixPath False [''.cz.toml'']) world_broken) =
      Inr (conf_cz_toml (PosixPath False [''.cz.toml'']))
   \<and> read_cfg env_no_git None world_broken =
        (Inl (InvalidConfigurationError ''Failed to parse pyproject.toml''), world_broken)"
proof -
  let ?c = "PosixPath False [''pyproject.toml'']"
  have h1: "cfg_paths env_no_git =
      [] @ ?c # [PosixPath False [''.cz.toml''], PosixPath False [''.cz.json''],
                 PosixPath False [''.cz.yaml'']]"
    by code_simp
  have h2: "\<forall>q\<in>set []. skipped env_no_git world_broken q" by simp
  have h3: "fst (exists ?c world_broken)" by code_simp
  have h4: "fst (load_config_from_file env_no_git ?c world_broken) =
              Inl (InvalidConfigurationError ''Failed to parse pyproject.toml'')"
    by code_simp
  have g: "fst (load_config_from_file env_no_git (PosixPath False [''.cz.toml'']) world_broken) =
      Inr (conf_cz_toml (PosixPath False [''.cz.toml'']))"
    by code_simp
  from load_error_ends_search [OF h1 h2 h3 h4] g show ?thesis by simp
qed

subsection \<open>Resolution only reads\<close>

text \<open>
  Claim C10. \<^verbatim>\<open>read_cfg\<close> leaves the file system as it found it, with an explicit path
  and without one, whether it returns a configuration or raises: the only file system
  operations of the module are \<^verbatim>\<open>exists()\<close> and \<^verbatim>\<open>open(path, "rb")\<close> followed by
  \<^verbatim>\<open>read()\<close>. (The format classes are handed the bytes read and the path.)
\<close>

theorem read_cfg_world_unchanged: "snd (read_cfg e cfg_path w) = w"
proof (cases cfg_path)
  case None
  have "snd (find_config_from_defaults e w) = w"
    by (simp add: find_config_from_defaults_def find_loop_snd)
  then obtain r where "find_config_from_defaults e w = (r, w)"
    by (metis prod.collapse)
  with None show ?thesis by (simp add: read_cfg_def split: sum.splits option.splits)
next
  case (Some p)
  obtain r where "load_config_from_file e p w = (r, w)"
    using load_pair [of e p w] by blast
  with Some show ?thesis
    by (simp add: read_cfg_def exists_def split: sum.splits)
qed

theorem read_cfg_world_unchanged_witness:
  "snd (read_cfg env_git_root None world_repo) = world_repo
   \<and> snd (read_cfg env_no_git None world_broken) = world_broken
   \<and> snd (read_cfg env_no_git (Some (Path ''file.yaml'')) world_repo) = world_repo"
  using read_cfg_world_unchanged [of env_git_root None world_repo]
        read_cfg_world_unchanged [of env_no_git None world_broken]
        read_cfg_world_unchanged [of env_no_git "Some (Path ''file.yaml'')" world_repo]
  by simp

end
